theory Spec2Isabelle
  imports
    Main
    "HOL-Library.Word"
    "HOL-Library.AList"
    "HOL-Library.Char_ord"
    "HOL-Library.List_Lexorder"
begin

section \<open>Values shared by the two services\<close>

text \<open>
  Go strings are byte strings and are modelled as \<open>string\<close>. A Go \<open>map[string]T\<close> is an
  association list with distinct keys, assigned with \<open>AList.update\<close> and read with
  \<open>map_of\<close>; the position of a key in the list carries no meaning. Record fields carry a
  short prefix naming their struct (\<open>rq_\<close> Request, \<open>ss_\<close> ScanService, \<open>sc_\<close> ScanCursor, \<open>sr_\<close> SearchResult,
  \<open>sh_\<close> SearchHits, \<open>ms_\<close> MultiTermvectorService, \<open>mi_\<close> MultiTermvectorItem), because several
  structs of the package use the same field names.
\<close>

text \<open>Values stored under \<open>interface{}\<close>: what the request bodies are built from.\<close>

datatype val =
    VString string
  | VBool bool
  | VBoolPtr bool
  | VStrings "string list"
  | VStringMap "(string \<times> string) list"
  | VList "val list"
  | VMap "(string \<times> val) list"

text \<open>
  The package's errors. \<open>EOS\<close> and \<open>ErrNoScrollId\<close> are the two sentinels of scan.go,
  \<open>Errorf\<close> is an error made by \<open>fmt.Errorf\<close> with its message, and \<open>External\<close> is an error
  handed up unchanged from a collaborator (request construction, the HTTP client, the status
  check, the JSON decoder).
\<close>

datatype error = EOS | ErrNoScrollId | Errorf string | External string

subsection \<open>Library functions of Go used by the code\<close>

text \<open>\<open>strings.Join(elems, sep)\<close>.\<close>

fun Join :: "string list \<Rightarrow> string \<Rightarrow> string" where
  "Join [] sep = []"
| "Join [x] sep = x"
| "Join (x # y # ys) sep = x @ sep @ Join (y # ys) sep"

text \<open>\<open>fmt.Sprintf("%v", b)\<close> for a bool.\<close>

definition Sprintf_v_bool :: "bool \<Rightarrow> string" where
  "Sprintf_v_bool b = (if b then ''true'' else ''false'')"

text \<open>\<open>fmt.Sprintf("%d", n)\<close> for an int.\<close>

definition digit_char :: "nat \<Rightarrow> char" where
  "digit_char d = ''0123456789ABCDEF'' ! d"

fun decimal :: "nat \<Rightarrow> string" where
  "decimal n = (if n < 10 then [digit_char n] else decimal (n div 10) @ [digit_char (n mod 10)])"

declare decimal.simps [simp del]

definition Sprintf_d :: "int \<Rightarrow> string" where
  "Sprintf_d n = (if n < 0 then CHR ''-'' # decimal (nat (- n)) else decimal (nat n))"

text \<open>
  \<open>url.QueryEscape\<close>: letters, digits and \<open>- _ . ~\<close> stay, a space becomes \<open>+\<close>, every other
  byte becomes \<open>%XX\<close> in upper-case hexadecimal.
\<close>

definition unreserved :: "char \<Rightarrow> bool" where
  "unreserved c =
     ((CHR ''a'' \<le> c \<and> c \<le> CHR ''z'') \<or> (CHR ''A'' \<le> c \<and> c \<le> CHR ''Z'') \<or>
      (CHR ''0'' \<le> c \<and> c \<le> CHR ''9'') \<or> c \<in> set ''-_.~'')"

definition escape_byte :: "char \<Rightarrow> string" where
  "escape_byte c =
     (if unreserved c then [c]
      else if c = CHR '' '' then ''+''
      else [CHR ''%'', digit_char (of_char c div 16), digit_char (of_char c mod 16)])"

definition QueryEscape :: "string \<Rightarrow> string" where
  "QueryEscape s = concat (map escape_byte s)"

text \<open>
  \<open>url.Values\<close> with one value per key: \<open>Set\<close> assigns, \<open>Encode\<close> writes \<open>key=value\<close> pairs,
  both escaped, sorted by key and joined by \<open>&\<close>.
\<close>

type_synonym Values = "(string \<times> string) list"

definition Set_param :: "string \<Rightarrow> string \<Rightarrow> Values \<Rightarrow> Values" where
  "Set_param k v ps = AList.update k v ps"

definition Encode :: "Values \<Rightarrow> string" where
  "Encode ps =
     Join (map (\<lambda>(k, v). QueryEscape k @ ''='' @ QueryEscape v) (sort_key fst ps)) ''&''"

section \<open>Scan and scroll (scan.go)\<close>

subsection \<open>Requests, the client and what a server answers\<close>

text \<open>
  A request as the code hands it to the HTTP client: the method and URL given to
  \<open>NewRequest\<close>, and the body as the setter called on it left it (\<open>SetBodyString\<close> with its
  string, \<open>SetBodyJson\<close> with its value).
\<close>

datatype Body = NoBody | BodyString string | BodyJson val

record Request =
  rq_method :: string
  rq_url :: string
  rq_body :: Body

text \<open>
  The declarations of \<open>SearchResult\<close> and \<open>SearchHits\<close> are not among the sources; these are
  the fields scan.go reads. \<open>sr_Hits\<close> is a pointer (\<open>None\<close> is nil), \<open>sh_TotalHits\<close> an int64,
  \<open>sh_Hits\<close> a slice of which the code takes the length only. The type of a document is left
  open.
\<close>

record 'h SearchHits =
  sh_TotalHits :: "64 word"
  sh_Hits :: "'h list"

record 'h SearchResult =
  sr_Hits :: "'h SearchHits option"
  sr_ScrollId :: string

text \<open>
  What one exchange with the server comes to, in the order the code checks it:
  \<open>client.c.Do\<close> fails; \<open>checkResponse\<close> rejects the status; \<open>Decode\<close> fails, leaving the
  result it decoded into as given; \<open>Decode\<close> succeeds, leaving the result as given.
\<close>

datatype 'h reply =
    DoFailed string
  | BadStatus string
  | Undecodable string "'h SearchResult"
  | Decoded "'h SearchResult"

text \<open>
  The client. \<open>NewRequest_error\<close> says for which method and URL the request cannot be built;
  \<open>c_Do\<close> is the server as the HTTP client \<open>c\<close> reaches it: its answer to a request, given
  the requests sent before.
\<close>

record 'h Client =
  NewRequest_error :: "string \<Rightarrow> string \<Rightarrow> string option"
  c_Do :: "Request list \<Rightarrow> Request \<Rightarrow> 'h reply"

text \<open>
  Modelled from the spec: \<open>Client.NewRequest\<close>, \<open>Request.SetBodyString\<close> and
  \<open>Request.SetBodyJson\<close> are not among the sources. By the wire contract (section 6) a request
  carries the method and the path with its query as the caller gave them, and the body the
  caller set.
\<close>

definition NewRequest :: "'h Client \<Rightarrow> string \<Rightarrow> string \<Rightarrow> error + Request" where
  "NewRequest cl m u =
     (case NewRequest_error cl m u of
        Some e \<Rightarrow> Inl (External e)
      | None \<Rightarrow> Inr \<lparr>rq_method = m, rq_url = u, rq_body = NoBody\<rparr>)"

definition SetBodyString :: "Request \<Rightarrow> string \<Rightarrow> Request" where
  "SetBodyString req s = req\<lparr>rq_body := BodyString s\<rparr>"

definition SetBodyJson :: "Request \<Rightarrow> val \<Rightarrow> Request" where
  "SetBodyJson req v = req\<lparr>rq_body := BodyJson v\<rparr>"

subsection \<open>ScanService\<close>

definition defaultKeepAlive :: string where
  "defaultKeepAlive = ''5m''"

text \<open>
  A query is represented by the value its \<open>Source()\<close> returns; \<open>ss_query = None\<close> is the nil
  interface. \<open>ss_indices\<close> and \<open>ss_types\<close> are slices that may be nil, \<open>ss_size\<close> is a pointer.
\<close>

type_synonym Query = val

record 'h ScanService =
  ss_client :: "'h Client"
  ss_indices :: "string list option"
  ss_types :: "string list option"
  ss_keepAlive :: string
  ss_query :: "Query option"
  ss_size :: "int option"
  ss_pretty :: bool
  ss_debug :: bool

text \<open>
  Modelled from the spec: \<open>NewMatchAllQuery\<close> is not among the sources; the query defaults to
  "match everything" (section 3).
\<close>

definition NewMatchAllQuery :: Query where
  "NewMatchAllQuery = VMap [(''match_all'', VMap [])]"

definition NewScanService :: "'h Client \<Rightarrow> 'h ScanService" where
  "NewScanService cl =
     \<lparr>ss_client = cl, ss_indices = None, ss_types = None, ss_keepAlive = [],
      ss_query = Some NewMatchAllQuery, ss_size = None, ss_pretty = False, ss_debug = False\<rparr>"

text \<open>The elements of a slice that may be nil: ranging over nil visits nothing.\<close>

definition elems :: "'a list option \<Rightarrow> 'a list" where
  "elems xs = (case xs of None \<Rightarrow> [] | Some ys \<Rightarrow> ys)"

definition Index :: "string \<Rightarrow> 'h ScanService \<Rightarrow> 'h ScanService" where
  "Index index s =
     (let s = (if ss_indices s = None then s\<lparr>ss_indices := Some []\<rparr> else s)
      in s\<lparr>ss_indices := Some (elems (ss_indices s) @ [index])\<rparr>)"

definition Indices :: "string list \<Rightarrow> 'h ScanService \<Rightarrow> 'h ScanService" where
  "Indices indices s =
     (let s = (if ss_indices s = None then s\<lparr>ss_indices := Some []\<rparr> else s)
      in s\<lparr>ss_indices := Some (elems (ss_indices s) @ indices)\<rparr>)"

definition Type :: "string \<Rightarrow> 'h ScanService \<Rightarrow> 'h ScanService" where
  "Type typ s =
     (let s = (if ss_types s = None then s\<lparr>ss_types := Some []\<rparr> else s)
      in s\<lparr>ss_types := Some (elems (ss_types s) @ [typ])\<rparr>)"

definition Types :: "string list \<Rightarrow> 'h ScanService \<Rightarrow> 'h ScanService" where
  "Types types s =
     (let s = (if ss_types s = None then s\<lparr>ss_types := Some []\<rparr> else s)
      in s\<lparr>ss_types := Some (elems (ss_types s) @ types)\<rparr>)"

definition Scroll :: "string \<Rightarrow> 'h ScanService \<Rightarrow> 'h ScanService" where
  "Scroll keepAlive s = s\<lparr>ss_keepAlive := keepAlive\<rparr>"

definition KeepAlive :: "string \<Rightarrow> 'h ScanService \<Rightarrow> 'h ScanService" where
  "KeepAlive keepAlive s = s\<lparr>ss_keepAlive := keepAlive\<rparr>"

definition Query :: "Query option \<Rightarrow> 'h ScanService \<Rightarrow> 'h ScanService" where
  "Query query s = s\<lparr>ss_query := query\<rparr>"

definition Pretty :: "bool \<Rightarrow> 'h ScanService \<Rightarrow> 'h ScanService" where
  "Pretty pretty s = s\<lparr>ss_pretty := pretty\<rparr>"

definition Debug :: "bool \<Rightarrow> 'h ScanService \<Rightarrow> 'h ScanService" where
  "Debug debug s = s\<lparr>ss_debug := debug\<rparr>"

definition Size :: "int \<Rightarrow> 'h ScanService \<Rightarrow> 'h ScanService" where
  "Size n s = s\<lparr>ss_size := Some n\<rparr>"

subsection \<open>ScanService.Do\<close>

text \<open>
  \<open>cleanPathString\<close> is not among the sources and is a parameter of everything that builds
  the path. The URL of \<open>Do\<close> is built in three parts, in the order of the code: the path
  (lines 120 to 141), the parameters (lines 144 to 156) and their encoding (lines 157 to 159).
\<close>

definition Do_path :: "(string \<Rightarrow> string) \<Rightarrow> 'h ScanService \<Rightarrow> string" where
  "Do_path cleanPathString s =
     (let urls = ''/'';
          indexPart = map cleanPathString (elems (ss_indices s));
          urls = (if length indexPart > 0 then urls @ Join indexPart '','' else urls);
          typesPart = map cleanPathString (elems (ss_types s));
          urls = (if length typesPart > 0 then urls @ ''/'' @ Join typesPart '','' else urls)
      in urls @ ''/_search'')"

definition Do_params :: "'h ScanService \<Rightarrow> Values" where
  "Do_params s =
     (let params = Set_param ''search_type'' ''scan'' [];
          params = (if ss_pretty s then Set_param ''pretty'' (Sprintf_v_bool (ss_pretty s)) params
                    else params);
          params = (if ss_keepAlive s \<noteq> [] then Set_param ''scroll'' (ss_keepAlive s) params
                    else Set_param ''scroll'' defaultKeepAlive params);
          params = (case ss_size s of
                      None \<Rightarrow> params
                    | Some n \<Rightarrow> if n > 0 then Set_param ''size'' (Sprintf_d n) params else params)
      in params)"

definition Do_urls :: "(string \<Rightarrow> string) \<Rightarrow> 'h ScanService \<Rightarrow> string" where
  "Do_urls cleanPathString s =
     (let urls = Do_path cleanPathString s; params = Do_params s
      in if length params > 0 then urls @ ''?'' @ Encode params else urls)"

definition Do_body :: "'h ScanService \<Rightarrow> val" where
  "Do_body s =
     (let body = [];
          body = (case ss_query s of
                    None \<Rightarrow> body
                  | Some q \<Rightarrow> AList.update ''query'' q body)
      in VMap body)"

subsection \<open>ScanCursor\<close>

text \<open>
  \<open>sc_Results\<close> is the result the cursor points to (never nil for a cursor made by \<open>Do\<close>);
  \<open>sc_currentPage\<close> is a Go int, which no run of the code considered here overflows.
\<close>

record 'h ScanCursor =
  sc_Results :: "'h SearchResult"
  sc_client :: "'h Client"
  sc_keepAlive :: string
  sc_pretty :: bool
  sc_debug :: bool
  sc_currentPage :: int

definition NewScanCursor ::
  "'h Client \<Rightarrow> string \<Rightarrow> bool \<Rightarrow> bool \<Rightarrow> 'h SearchResult \<Rightarrow> 'h ScanCursor" where
  "NewScanCursor cl keepAlive pretty debug searchResult =
     \<lparr>sc_Results = searchResult, sc_client = cl, sc_keepAlive = keepAlive, sc_pretty = pretty,
      sc_debug = debug, sc_currentPage = 0\<rparr>"

text \<open>
  \<open>Do\<close> takes the requests sent so far and returns them with its own appended once the HTTP
  client has been called. The dumps that \<open>debug\<close> prints go to standard output and are not
  part of the state.
\<close>

definition ScanService_Do ::
  "(string \<Rightarrow> string) \<Rightarrow> 'h ScanService \<Rightarrow> Request list \<Rightarrow> (error + 'h ScanCursor) \<times> Request list"
  where
  "ScanService_Do cleanPathString s sent =
     (case NewRequest (ss_client s) ''POST'' (Do_urls cleanPathString s) of
        Inl err \<Rightarrow> (Inl err, sent)
      | Inr req0 \<Rightarrow>
          (let req = SetBodyJson req0 (Do_body s) in
           case c_Do (ss_client s) sent req of
             DoFailed err \<Rightarrow> (Inl (External err), sent @ [req])
           | BadStatus err \<Rightarrow> (Inl (External err), sent @ [req])
           | Undecodable err r \<Rightarrow> (Inl (External err), sent @ [req])
           | Decoded searchResult \<Rightarrow>
               (Inr (NewScanCursor (ss_client s) (ss_keepAlive s) (ss_pretty s) (ss_debug s)
                       searchResult),
                sent @ [req])))"

definition TotalHits :: "'h ScanCursor \<Rightarrow> 64 word" where
  "TotalHits c =
     (case sr_Hits (sc_Results c) of
        None \<Rightarrow> 0
      | Some hits \<Rightarrow> sh_TotalHits hits)"

text \<open>The condition of line 259 on the stored result.\<close>

definition exhausted :: "'h SearchResult \<Rightarrow> bool" where
  "exhausted r =
     (case sr_Hits r of
        None \<Rightarrow> True
      | Some hits \<Rightarrow> length (sh_Hits hits) = 0 \<or> sh_TotalHits hits = 0)"

definition Next_params :: "'h ScanCursor \<Rightarrow> Values" where
  "Next_params c =
     (let params = [];
          params = (if sc_pretty c then Set_param ''pretty'' (Sprintf_v_bool (sc_pretty c)) params
                    else params);
          params = (if sc_keepAlive c \<noteq> [] then Set_param ''scroll'' (sc_keepAlive c) params
                    else Set_param ''scroll'' defaultKeepAlive params)
      in params)"

definition Next_urls :: "'h ScanCursor \<Rightarrow> string" where
  "Next_urls c = ''/_search/scroll'' @ ''?'' @ Encode (Next_params c)"

text \<open>
  \<open>Next\<close> returns its result, the cursor as the call leaves it, and the requests sent. A
  failed \<open>Decode\<close> leaves in the cursor what it had written into the stored result.
\<close>

definition Next ::
  "'h ScanCursor \<Rightarrow> Request list \<Rightarrow> (error + 'h SearchResult) \<times> 'h ScanCursor \<times> Request list"
  where
  "Next c sent =
     (if sc_currentPage c > 0 \<and> exhausted (sc_Results c) then (Inl EOS, c, sent)
      else if sr_ScrollId (sc_Results c) = [] then (Inl ErrNoScrollId, c, sent)
      else
        case NewRequest (sc_client c) ''POST'' (Next_urls c) of
          Inl err \<Rightarrow> (Inl err, c, sent)
        | Inr req0 \<Rightarrow>
            (let req = SetBodyString req0 (sr_ScrollId (sc_Results c)) in
             case c_Do (sc_client c) sent req of
               DoFailed err \<Rightarrow> (Inl (External err), c, sent @ [req])
             | BadStatus err \<Rightarrow> (Inl (External err), c, sent @ [req])
             | Undecodable err r \<Rightarrow> (Inl (External err), c\<lparr>sc_Results := r\<rparr>, sent @ [req])
             | Decoded r \<Rightarrow>
                 (Inr r, c\<lparr>sc_Results := r, sc_currentPage := sc_currentPage c + 1\<rparr>,
                  sent @ [req])))"

text \<open>
  Successive \<open>Next\<close> calls on one cursor: the results in call order, the cursor and the
  requests sent after the last call.
\<close>

fun Next_calls ::
  "nat \<Rightarrow> 'h ScanCursor \<Rightarrow> Request list \<Rightarrow>
   (error + 'h SearchResult) list \<times> 'h ScanCursor \<times> Request list" where
  "Next_calls 0 c sent = ([], c, sent)"
| "Next_calls (Suc n) c sent =
     (case Next c sent of
        (res, c', sent') \<Rightarrow>
          (case Next_calls n c' sent' of
             (ress, c'', sent'') \<Rightarrow> (res # ress, c'', sent'')))"

text \<open>A stub server that answers the n-th request with the n-th reply of a script.\<close>

definition scripted :: "'h reply list \<Rightarrow> Request list \<Rightarrow> Request \<Rightarrow> 'h reply" where
  "scripted script sent req =
     (if length sent < length script then script ! length sent
      else DoFailed ''script exhausted'')"

section \<open>Multi term vectors (mtermvector.go)\<close>

subsection \<open>MultiTermvectorItem\<close>

text \<open>
  Pointer fields and the nil-able slice, map and interface fields are options; \<open>None\<close> is
  nil.
\<close>

record MultiTermvectorItem =
  mi_index :: string
  mi_typ :: string
  mi_id :: string
  mi_doc :: "val option"
  mi_fieldStatistics :: "bool option"
  mi_fields :: "string list option"
  mi_perFieldAnalyzer :: "(string \<times> string) list option"
  mi_offsets :: "bool option"
  mi_parent :: string
  mi_payloads :: "bool option"
  mi_positions :: "bool option"
  mi_preference :: string
  mi_realtime :: "bool option"
  mi_routing :: string
  mi_termStatistics :: "bool option"

definition NewMultiTermvectorItem :: MultiTermvectorItem where
  "NewMultiTermvectorItem =
     \<lparr>mi_index = [], mi_typ = [], mi_id = [], mi_doc = None, mi_fieldStatistics = None,
      mi_fields = None, mi_perFieldAnalyzer = None, mi_offsets = None, mi_parent = [],
      mi_payloads = None, mi_positions = None, mi_preference = [], mi_realtime = None,
      mi_routing = [], mi_termStatistics = None\<rparr>"

definition Item_Index :: "string \<Rightarrow> MultiTermvectorItem \<Rightarrow> MultiTermvectorItem" where
  "Item_Index index s = s\<lparr>mi_index := index\<rparr>"

definition Item_Type :: "string \<Rightarrow> MultiTermvectorItem \<Rightarrow> MultiTermvectorItem" where
  "Item_Type typ s = s\<lparr>mi_typ := typ\<rparr>"

definition Item_Id :: "string \<Rightarrow> MultiTermvectorItem \<Rightarrow> MultiTermvectorItem" where
  "Item_Id i s = s\<lparr>mi_id := i\<rparr>"

definition Item_Doc :: "val option \<Rightarrow> MultiTermvectorItem \<Rightarrow> MultiTermvectorItem" where
  "Item_Doc doc s = s\<lparr>mi_doc := doc\<rparr>"

definition Item_FieldStatistics :: "bool \<Rightarrow> MultiTermvectorItem \<Rightarrow> MultiTermvectorItem" where
  "Item_FieldStatistics fieldStatistics s = s\<lparr>mi_fieldStatistics := Some fieldStatistics\<rparr>"

definition Item_Fields :: "string list \<Rightarrow> MultiTermvectorItem \<Rightarrow> MultiTermvectorItem" where
  "Item_Fields fs s =
     (let s = (if mi_fields s = None then s\<lparr>mi_fields := Some []\<rparr> else s)
      in s\<lparr>mi_fields := Some (elems (mi_fields s) @ fs)\<rparr>)"

definition Item_PerFieldAnalyzer ::
  "(string \<times> string) list option \<Rightarrow> MultiTermvectorItem \<Rightarrow> MultiTermvectorItem" where
  "Item_PerFieldAnalyzer perFieldAnalyzer s = s\<lparr>mi_perFieldAnalyzer := perFieldAnalyzer\<rparr>"

definition Item_Offsets :: "bool \<Rightarrow> MultiTermvectorItem \<Rightarrow> MultiTermvectorItem" where
  "Item_Offsets offsets s = s\<lparr>mi_offsets := Some offsets\<rparr>"

definition Item_Parent :: "string \<Rightarrow> MultiTermvectorItem \<Rightarrow> MultiTermvectorItem" where
  "Item_Parent parent s = s\<lparr>mi_parent := parent\<rparr>"

definition Item_Payloads :: "bool \<Rightarrow> MultiTermvectorItem \<Rightarrow> MultiTermvectorItem" where
  "Item_Payloads payloads s = s\<lparr>mi_payloads := Some payloads\<rparr>"

definition Item_Positions :: "bool \<Rightarrow> MultiTermvectorItem \<Rightarrow> MultiTermvectorItem" where
  "Item_Positions positions s = s\<lparr>mi_positions := Some positions\<rparr>"

definition Item_Preference :: "string \<Rightarrow> MultiTermvectorItem \<Rightarrow> MultiTermvectorItem" where
  "Item_Preference preference s = s\<lparr>mi_preference := preference\<rparr>"

definition Item_Realtime :: "bool \<Rightarrow> MultiTermvectorItem \<Rightarrow> MultiTermvectorItem" where
  "Item_Realtime realtime s = s\<lparr>mi_realtime := Some realtime\<rparr>"

definition Item_Routing :: "string \<Rightarrow> MultiTermvectorItem \<Rightarrow> MultiTermvectorItem" where
  "Item_Routing routing s = s\<lparr>mi_routing := routing\<rparr>"

definition Item_TermStatistics :: "bool \<Rightarrow> MultiTermvectorItem \<Rightarrow> MultiTermvectorItem" where
  "Item_TermStatistics termStatistics s = s\<lparr>mi_termStatistics := Some termStatistics\<rparr>"

text \<open>
  \<open>Source\<close> is a run of assignments \<open>source[key] = value\<close>, each but the first under a guard.
  An entry \<open>(key, Some value)\<close> is an assignment whose guard holds, \<open>(key, None)\<close> one whose
  guard fails; \<open>assign\<close> performs one entry, and the entries stand in the order of the code.
\<close>

definition assign :: "string \<times> val option \<Rightarrow> (string \<times> val) list \<Rightarrow> (string \<times> val) list" where
  "assign e source = (case snd e of None \<Rightarrow> source | Some v \<Rightarrow> AList.update (fst e) v source)"

definition guard :: "bool \<Rightarrow> val \<Rightarrow> val option" where
  "guard b v = (if b then Some v else None)"

definition Item_Source :: "MultiTermvectorItem \<Rightarrow> (string \<times> val) list" where
  "Item_Source s =
     fold assign
       [(''_id'', Some (VString (mi_id s))),
        (''_index'', guard (mi_index s \<noteq> []) (VString (mi_index s))),
        (''_type'', guard (mi_typ s \<noteq> []) (VString (mi_typ s))),
        (''fields'', map_option VStrings (mi_fields s)),
        (''field_statistics'', map_option (\<lambda>b. VString (Sprintf_v_bool b)) (mi_fieldStatistics s)),
        (''offsets'', map_option VBoolPtr (mi_offsets s)),
        (''parant'', guard (mi_parent s \<noteq> []) (VString (mi_parent s))),
        (''payloads'', map_option (\<lambda>b. VString (Sprintf_v_bool b)) (mi_payloads s)),
        (''positions'', map_option (\<lambda>b. VString (Sprintf_v_bool b)) (mi_positions s)),
        (''preference'', guard (mi_preference s \<noteq> []) (VString (mi_preference s))),
        (''realtime'', map_option (\<lambda>b. VString (Sprintf_v_bool b)) (mi_realtime s)),
        (''routing'', guard (mi_routing s \<noteq> []) (VString (mi_routing s))),
        (''term_statistics'', map_option (\<lambda>b. VString (Sprintf_v_bool b)) (mi_termStatistics s)),
        (''doc'', mi_doc s),
        (''per_field_analyzer'',
           case mi_perFieldAnalyzer s of
             None \<Rightarrow> None
           | Some m \<Rightarrow> guard (length m > 0) (VStringMap m))]
       []"

subsection \<open>MultiTermvectorService\<close>

text \<open>
  One call of \<open>Client.PerformRequest\<close> with its four arguments, and what comes of it together
  with \<open>json.Unmarshal\<close> of the response body: \<open>PerformRequest\<close> fails, the body does not
  decode, or it decodes to a response. \<open>Client.PerformRequest\<close> and the declaration of
  \<open>TermvectorsResponse\<close> are not among the sources; the client is a parameter and the type of
  a response document is left open.
\<close>

record Call =
  call_method :: string
  call_path :: string
  call_params :: Values
  call_body :: val

record 't MultiTermvectorResponse =
  Docs :: "'t list"

datatype 't answer =
    PerformFailed string
  | UnmarshalFailed string
  | Unmarshalled "'t MultiTermvectorResponse"

record 't MultiTermvectorService =
  ms_client :: "Call list \<Rightarrow> Call \<Rightarrow> 't answer"
  ms_pretty :: bool
  ms_index :: string
  ms_typ :: string
  ms_preference :: string
  ms_realtime :: "bool option"
  ms_refresh :: "bool option"
  ms_docs :: "MultiTermvectorItem list"

definition NewMultiTermvectorService ::
  "(Call list \<Rightarrow> Call \<Rightarrow> 't answer) \<Rightarrow> 't MultiTermvectorService" where
  "NewMultiTermvectorService cl =
     \<lparr>ms_client = cl, ms_pretty = False, ms_index = [], ms_typ = [], ms_preference = [],
      ms_realtime = None, ms_refresh = None, ms_docs = []\<rparr>"

definition Service_Pretty :: "bool \<Rightarrow> 't MultiTermvectorService \<Rightarrow> 't MultiTermvectorService" where
  "Service_Pretty pretty s = s\<lparr>ms_pretty := pretty\<rparr>"

definition Service_Add ::
  "MultiTermvectorItem list \<Rightarrow> 't MultiTermvectorService \<Rightarrow> 't MultiTermvectorService" where
  "Service_Add docs s = s\<lparr>ms_docs := ms_docs s @ docs\<rparr>"

definition Service_Index :: "string \<Rightarrow> 't MultiTermvectorService \<Rightarrow> 't MultiTermvectorService" where
  "Service_Index index s = s\<lparr>ms_index := index\<rparr>"

definition Service_Type :: "string \<Rightarrow> 't MultiTermvectorService \<Rightarrow> 't MultiTermvectorService" where
  "Service_Type typ s = s\<lparr>ms_typ := typ\<rparr>"

definition Service_Source :: "'t MultiTermvectorService \<Rightarrow> val" where
  "Service_Source s =
     (let docs = map (\<lambda>doc. VMap (Item_Source doc)) (ms_docs s)
      in VMap (AList.update ''docs'' (VList docs) []))"

text \<open>
  \<open>uritemplates.Expand\<close> is not among the sources and is a parameter: it returns an error
  message or the expanded path.
\<close>

definition buildURL ::
  "(string \<Rightarrow> (string \<times> string) list \<Rightarrow> string + string) \<Rightarrow> 't MultiTermvectorService \<Rightarrow>
   error + string \<times> Values" where
  "buildURL Expand s =
     (let expanded =
            (if ms_index s \<noteq> [] \<and> ms_typ s \<noteq> [] then
               Expand ''/{index}/{type}/_mtermvectors''
                 (AList.update ''type'' (ms_typ s) (AList.update ''index'' (ms_index s) []))
             else if ms_index s \<noteq> [] then
               Expand ''/{index}/_mtermvectors'' (AList.update ''index'' (ms_index s) [])
             else Inr ''/_mtermvectors'')
      in case expanded of
           Inl err \<Rightarrow> Inl (External err)
         | Inr path \<Rightarrow>
             (let params = [];
                  params = (if ms_pretty s then Set_param ''pretty'' ''1'' params else params);
                  params = (if ms_preference s \<noteq> []
                            then Set_param ''preference'' (ms_preference s) params else params);
                  params = (case ms_realtime s of
                              None \<Rightarrow> params
                            | Some b \<Rightarrow> Set_param ''realtime'' (Sprintf_v_bool b) params)
              in Inr (path, params)))"

text \<open>
  \<open>Validate\<close>: the message is that of \<open>fmt.Errorf("missing required fields: %v", invalid)\<close>,
  where \<open>%v\<close> prints a slice of strings between brackets, separated by spaces.
\<close>

definition Validate :: "'t MultiTermvectorService \<Rightarrow> error option" where
  "Validate s =
     (let invalid = [];
          invalid = (if ms_index s = [] then invalid @ [''Index''] else invalid);
          invalid = (if ms_typ s = [] then invalid @ [''Type''] else invalid)
      in if length invalid > 0
         then Some (Errorf (''missing required fields: '' @ ''['' @ Join invalid '' '' @ '']''))
         else None)"

text \<open>
  \<open>Do\<close> takes the calls made to \<open>PerformRequest\<close> so far and returns them with its own
  appended once it has made it.
\<close>

definition MultiTermvectorService_Do ::
  "(string \<Rightarrow> (string \<times> string) list \<Rightarrow> string + string) \<Rightarrow> 't MultiTermvectorService \<Rightarrow>
   Call list \<Rightarrow> (error + 't MultiTermvectorResponse) \<times> Call list" where
  "MultiTermvectorService_Do Expand s calls =
     (case Validate s of
        Some err \<Rightarrow> (Inl err, calls)
      | None \<Rightarrow>
          (case buildURL Expand s of
             Inl err \<Rightarrow> (Inl err, calls)
           | Inr (path, params) \<Rightarrow>
               (let body = Service_Source s;
                    call = \<lparr>call_method = ''GET'', call_path = path, call_params = params,
                            call_body = body\<rparr>
                in case ms_client s calls call of
                     PerformFailed err \<Rightarrow> (Inl (External err), calls @ [call])
                   | UnmarshalFailed err \<Rightarrow> (Inl (External err), calls @ [call])
                   | Unmarshalled ret \<Rightarrow> (Inr ret, calls @ [call]))))"

section \<open>Sequences of builder calls\<close>

text \<open>
  The four calls that add names to a \<open>ScanService\<close>, a sequence of them applied in order
  from left to right, the same names added by single-name calls only, and the names a call
  adds to each list.
\<close>

datatype builder_call =
    CallIndex string
  | CallIndices "string list"
  | CallType string
  | CallTypes "string list"

fun apply_call :: "builder_call \<Rightarrow> 'h ScanService \<Rightarrow> 'h ScanService" where
  "apply_call (CallIndex index) s = Index index s"
| "apply_call (CallIndices indices) s = Indices indices s"
| "apply_call (CallType typ) s = Type typ s"
| "apply_call (CallTypes types) s = Types types s"

definition apply_calls :: "builder_call list \<Rightarrow> 'h ScanService \<Rightarrow> 'h ScanService" where
  "apply_calls calls s = fold apply_call calls s"

fun one_at_a_time :: "builder_call \<Rightarrow> builder_call list" where
  "one_at_a_time (CallIndex index) = [CallIndex index]"
| "one_at_a_time (CallIndices indices) = map CallIndex indices"
| "one_at_a_time (CallType typ) = [CallType typ]"
| "one_at_a_time (CallTypes types) = map CallType types"

fun index_names :: "builder_call \<Rightarrow> string list" where
  "index_names (CallIndex index) = [index]"
| "index_names (CallIndices indices) = indices"
| "index_names _ = []"

fun type_names :: "builder_call \<Rightarrow> string list" where
  "type_names (CallType typ) = [typ]"
| "type_names (CallTypes types) = types"
| "type_names _ = []"

section \<open>Scenarios\<close>

text \<open>
  Concrete clients, pages and cursors on which the properties below are evaluated. The
  stub client builds every request and answers from a script; \<open>strip_slashes\<close> stands in for
  \<open>cleanPathString\<close>.
\<close>

definition strip_slashes :: "string \<Rightarrow> string" where
  "strip_slashes name = filter (\<lambda>ch. ch \<noteq> CHR ''/'') name"

definition stub_client :: "'h reply list \<Rightarrow> 'h Client" where
  "stub_client script = \<lparr>NewRequest_error = (\<lambda>m u. None), c_Do = scripted script\<rparr>"

definition page :: "string \<Rightarrow> 64 word \<Rightarrow> string list \<Rightarrow> string SearchResult" where
  "page token n docs =
     \<lparr>sr_Hits = Some \<lparr>sh_TotalHits = n, sh_Hits = docs\<rparr>, sr_ScrollId = token\<rparr>"

definition page_0 :: "string SearchResult" where
  "page_0 = page ''t0'' 2 []"

definition page_A :: "string SearchResult" where
  "page_A = page ''t1'' 2 [''doc1'']"

definition page_B :: "string SearchResult" where
  "page_B = page ''t2'' 2 [''doc2'']"

definition page_C :: "string SearchResult" where
  "page_C = page ''t3'' 2 []"

definition abc_client :: "string Client" where
  "abc_client = stub_client [Decoded page_0, Decoded page_A, Decoded page_B, Decoded page_C]"

definition abc_service :: "string ScanService" where
  "abc_service = Index ''logs'' (NewScanService abc_client)"

definition abc_cursor :: "string ScanCursor" where
  "abc_cursor = NewScanCursor abc_client [] False False page_0"

definition abc_request :: Request where
  "abc_request =
     \<lparr>rq_method = ''POST'', rq_url = ''/logs/_search?scroll=5m&search_type=scan'',
      rq_body = BodyJson (VMap [(''query'', VMap [(''match_all'', VMap [])])])\<rparr>"

text \<open>A cursor after one step whose stored result has neither hits nor a scroll token.\<close>

definition tokenless_spent_cursor :: "string ScanCursor" where
  "tokenless_spent_cursor =
     (NewScanCursor abc_client [] False False \<lparr>sr_Hits = None, sr_ScrollId = []\<rparr>)
       \<lparr>sc_currentPage := 1\<rparr>"

text \<open>A fresh cursor and a cursor in mid-scan, both holding documents but no scroll token.\<close>

definition tokenless_fresh_cursor :: "string ScanCursor" where
  "tokenless_fresh_cursor = NewScanCursor abc_client [] False False (page [] 2 [''doc1''])"

definition tokenless_active_cursor :: "string ScanCursor" where
  "tokenless_active_cursor =
     (NewScanCursor abc_client [] False False (page [] 2 [''doc1'']))\<lparr>sc_currentPage := 2\<rparr>"

text \<open>A cursor whose third step brought the empty page.\<close>

definition spent_cursor :: "string ScanCursor" where
  "spent_cursor = (NewScanCursor abc_client ''1m'' True False page_C)\<lparr>sc_currentPage := 3\<rparr>"

text \<open>The same service with a scroll time of one minute and pretty printing.\<close>

definition minute_service :: "string ScanService" where
  "minute_service = Scroll ''1m'' (Pretty True abc_service)"

definition minute_cursor :: "string ScanCursor" where
  "minute_cursor = NewScanCursor abc_client ''1m'' True False page_0"

definition minute_request :: Request where
  "minute_request =
     \<lparr>rq_method = ''POST'', rq_url = ''/logs/_search?pretty=true&scroll=1m&search_type=scan'',
      rq_body = BodyJson (VMap [(''query'', VMap [(''match_all'', VMap [])])])\<rparr>"

text \<open>The continuation request of a cursor, for a token, with and without the settings.\<close>

definition scroll_request :: "string \<Rightarrow> Request" where
  "scroll_request token =
     \<lparr>rq_method = ''POST'', rq_url = ''/_search/scroll?scroll=5m'', rq_body = BodyString token\<rparr>"

definition minute_scroll_request :: "string \<Rightarrow> Request" where
  "minute_scroll_request token =
     \<lparr>rq_method = ''POST'', rq_url = ''/_search/scroll?pretty=true&scroll=1m'',
      rq_body = BodyString token\<rparr>"

text \<open>Builder calls in batches.\<close>

definition batch_calls :: "builder_call list" where
  "batch_calls = [CallIndices [''a'', ''b''], CallType ''t'', CallIndex ''c'', CallTypes [''u'', ''v'']]"

text \<open>Multi term vector requests: an item with a parent, and services with and without names.\<close>

definition child_item :: MultiTermvectorItem where
  "child_item = Item_Parent ''p1'' (Item_Id ''1'' NewMultiTermvectorItem)"

definition orphan_item :: MultiTermvectorItem where
  "orphan_item = Item_Id ''2'' NewMultiTermvectorItem"

definition empty_answer :: "Call list \<Rightarrow> Call \<Rightarrow> nat answer" where
  "empty_answer calls call = Unmarshalled \<lparr>Docs = []\<rparr>"

definition expand_stub :: "string \<Rightarrow> (string \<times> string) list \<Rightarrow> string + string" where
  "expand_stub template values = Inr template"

definition unnamed_service :: "nat MultiTermvectorService" where
  "unnamed_service = Service_Add [child_item] (NewMultiTermvectorService empty_answer)"

definition index_only_service :: "nat MultiTermvectorService" where
  "index_only_service = Service_Index ''twitter'' unnamed_service"

definition type_only_service :: "nat MultiTermvectorService" where
  "type_only_service = Service_Type ''tweet'' unnamed_service"

definition named_service :: "nat MultiTermvectorService" where
  "named_service = Service_Type ''tweet'' index_only_service"

section \<open>Properties of the scroll cursor\<close>

subsection \<open>Single steps\<close>

lemma exhausted_iff:
  "exhausted r \<longleftrightarrow>
     (sr_Hits r = None \<or>
      (\<exists>hits. sr_Hits r = Some hits \<and> (sh_Hits hits = [] \<or> sh_TotalHits hits = 0)))"
  by (auto simp: exhausted_def split: option.splits)

lemma Next_exhausted:
  "sc_currentPage c > 0 \<Longrightarrow> exhausted (sc_Results c) \<Longrightarrow> Next c sent = (Inl EOS, c, sent)"
  by (simp add: Next_def)

lemma Next_calls_exhausted:
  "sc_currentPage c > 0 \<Longrightarrow> exhausted (sc_Results c) \<Longrightarrow>
   Next_calls n c sent = (replicate n (Inl EOS), c, sent)"
  by (induction n) (simp_all add: Next_exhausted)

lemma Next_Decoded:
  assumes "\<not> (sc_currentPage c > 0 \<and> exhausted (sc_Results c))"
    and "sr_ScrollId (sc_Results c) \<noteq> []"
    and "NewRequest_error (sc_client c) ''POST'' (Next_urls c) = None"
    and "c_Do (sc_client c) sent
           \<lparr>rq_method = ''POST'', rq_url = Next_urls c, rq_body = BodyString (sr_ScrollId (sc_Results c))\<rparr>
         = Decoded r"
  shows "Next c sent =
           (Inr r, c\<lparr>sc_Results := r, sc_currentPage := sc_currentPage c + 1\<rparr>,
            sent @ [\<lparr>rq_method = ''POST'', rq_url = Next_urls c,
                      rq_body = BodyString (sr_ScrollId (sc_Results c))\<rparr>])"
  using assms by (simp add: Next_def NewRequest_def SetBodyString_def)

lemma Do_Decoded:
  assumes "NewRequest_error (ss_client s) ''POST'' (Do_urls clean s) = None"
    and "c_Do (ss_client s) sent
           \<lparr>rq_method = ''POST'', rq_url = Do_urls clean s, rq_body = BodyJson (Do_body s)\<rparr> = Decoded r"
  shows "ScanService_Do clean s sent =
           (Inr (NewScanCursor (ss_client s) (ss_keepAlive s) (ss_pretty s) (ss_debug s) r),
            sent @ [\<lparr>rq_method = ''POST'', rq_url = Do_urls clean s, rq_body = BodyJson (Do_body s)\<rparr>])"
  using assms by (simp add: ScanService_Do_def NewRequest_def SetBodyJson_def)

lemma Next_calls_add:
  "Next_calls (m + n) c sent =
     (case Next_calls m c sent of
        (ress, c', sent') \<Rightarrow>
          (case Next_calls n c' sent' of (ress', c'', sent'') \<Rightarrow> (ress @ ress', c'', sent'')))"
  by (induction m arbitrary: c sent) (auto split: prod.splits)

lemmas scenario_defs =
  abc_client_def abc_service_def abc_cursor_def abc_request_def stub_client_def scripted_def
  page_def page_0_def page_A_def page_B_def page_C_def strip_slashes_def
  tokenless_spent_cursor_def tokenless_fresh_cursor_def tokenless_active_cursor_def
  spent_cursor_def NewScanCursor_def NewScanService_def NewMatchAllQuery_def
  minute_service_def minute_cursor_def minute_request_def scroll_request_def
  minute_scroll_request_def

subsection \<open>End of stream\<close>

text \<open>
  Claim C3. A cursor that has stepped at least once and whose stored result is terminal (no
  hit metadata, or no documents, or a total of zero) answers \<open>Next\<close> with \<open>EOS\<close>, sends
  nothing, and is left exactly as it was; so any number of further calls return \<open>EOS\<close> and
  leave cursor and network untouched.
\<close>

theorem exhausted_cursor_keeps_returning_EOS:
  assumes "sc_currentPage c > 0"
    and "sr_Hits (sc_Results c) = None \<or>
         (\<exists>hits. sr_Hits (sc_Results c) = Some hits \<and>
                  (sh_Hits hits = [] \<or> sh_TotalHits hits = 0))"
  shows "Next c sent = (Inl EOS, c, sent) \<and>
         Next_calls n c sent = (replicate n (Inl EOS), c, sent)"
  using assms by (simp add: Next_exhausted Next_calls_exhausted exhausted_iff)

theorem exhausted_cursor_keeps_returning_EOS_witness:
  "sc_currentPage spent_cursor = 3 \<and>
   sr_Hits (sc_Results spent_cursor) = Some \<lparr>sh_TotalHits = 2, sh_Hits = []\<rparr> \<and>
   Next spent_cursor [abc_request] = (Inl EOS, spent_cursor, [abc_request]) \<and>
   Next_calls 5 spent_cursor [abc_request] =
     ([Inl EOS, Inl EOS, Inl EOS, Inl EOS, Inl EOS], spent_cursor, [abc_request])"
proof -
  have pos: "sc_currentPage spent_cursor > 0"
    and hits: "sr_Hits (sc_Results spent_cursor) = Some \<lparr>sh_TotalHits = 2, sh_Hits = []\<rparr>"
    by (simp_all add: scenario_defs)
  have "Next spent_cursor [abc_request] = (Inl EOS, spent_cursor, [abc_request]) \<and>
        Next_calls 5 spent_cursor [abc_request] =
          (replicate 5 (Inl EOS), spent_cursor, [abc_request])"
    using pos hits by (intro exhausted_cursor_keeps_returning_EOS) simp_all
  moreover have "sc_currentPage spent_cursor = 3"
    by (simp add: scenario_defs)
  ultimately show ?thesis
    using hits by (simp add: numeral_eq_Suc)
qed

subsection \<open>The missing scroll token\<close>

text \<open>
  Claim C2, as the code has it. A cursor whose stored scroll token is empty sends nothing and
  is left unchanged by \<open>Next\<close>. The call fails with \<open>ErrNoScrollId\<close> unless the cursor has
  stepped before and its stored result is terminal: the test for the end of the stream comes
  first, and then the call returns \<open>EOS\<close>.
\<close>

theorem empty_token_sends_nothing:
  assumes "sr_ScrollId (sc_Results c) = []"
  shows "Next c sent =
           (Inl (if sc_currentPage c > 0 \<and> exhausted (sc_Results c) then EOS else ErrNoScrollId),
            c, sent)"
  using assms by (simp add: Next_def)

theorem empty_token_sends_nothing_witness:
  "sr_ScrollId (sc_Results tokenless_fresh_cursor) = [] \<and>
   Next tokenless_fresh_cursor [] = (Inl ErrNoScrollId, tokenless_fresh_cursor, []) \<and>
   sr_ScrollId (sc_Results tokenless_active_cursor) = [] \<and>
   Next tokenless_active_cursor [] = (Inl ErrNoScrollId, tokenless_active_cursor, [])"
proof -
  have fresh: "sr_ScrollId (sc_Results tokenless_fresh_cursor) = []"
    and active: "sr_ScrollId (sc_Results tokenless_active_cursor) = []"
    by (simp_all add: scenario_defs)
  show ?thesis
    using empty_token_sends_nothing [OF fresh, of "[]"]
      empty_token_sends_nothing [OF active, of "[]"] fresh active
    by (simp add: scenario_defs exhausted_def)
qed

text \<open>
  The claim as written fails: after one step that left neither hits nor a token, \<open>Next\<close>
  returns \<open>EOS\<close>, not \<open>ErrNoScrollId\<close>.
\<close>

theorem empty_token_counterexample:
  "sr_ScrollId (sc_Results tokenless_spent_cursor) = [] \<and>
   Next tokenless_spent_cursor [] = (Inl EOS, tokenless_spent_cursor, []) \<and>
   fst (Next tokenless_spent_cursor []) \<noteq> Inl ErrNoScrollId"
  by (simp add: Next_def scenario_defs exhausted_def)

subsection \<open>A scan of three pages\<close>

text \<open>
  Claim C1, as the code has it. Let initiation succeed with a result that carries a scroll
  token, and let the server answer the continuation requests with pages A and B, each with
  hit metadata, at least one document, a total other than zero and a scroll token, and then
  with a terminal page C. Then the successive \<open>Next\<close> calls return A, B, the page C itself,
  and from the fourth call on \<open>EOS\<close>; four requests are sent in all, however many calls
  follow.
\<close>

theorem pages_A_B_C_then_EOS:
  assumes cl: "NewRequest_error (ss_client s) = (\<lambda>m u. None)"
      "c_Do (ss_client s) = scripted [Decoded R0, Decoded A, Decoded B, Decoded C]"
    and R0: "sr_ScrollId R0 \<noteq> []"
    and A: "sr_Hits A = Some hA" "sh_Hits hA \<noteq> []" "sh_TotalHits hA \<noteq> 0" "sr_ScrollId A \<noteq> []"
    and B: "sr_Hits B = Some hB" "sh_Hits hB \<noteq> []" "sh_TotalHits hB \<noteq> 0" "sr_ScrollId B \<noteq> []"
    and C: "exhausted C"
  shows "\<exists>c0 req0. ScanService_Do clean s [] = (Inr c0, [req0]) \<and>
           (\<exists>c' sent'. Next_calls (3 + n) c0 [req0] =
              ([Inr A, Inr B, Inr C] @ replicate n (Inl EOS), c', sent') \<and> length sent' = 4)"
proof -
  let ?cl = "ss_client s"
  let ?c0 = "NewScanCursor ?cl (ss_keepAlive s) (ss_pretty s) (ss_debug s) R0"
  let ?req0 = "\<lparr>rq_method = ''POST'', rq_url = Do_urls clean s, rq_body = BodyJson (Do_body s)\<rparr>"
  have nA: "\<not> exhausted A" and nB: "\<not> exhausted B"
    using A B by (simp_all add: exhausted_def)
  have do0: "ScanService_Do clean s [] = (Inr ?c0, [?req0])"
    using Do_Decoded [of s clean "[]" R0] cl by (simp add: scripted_def)
  let ?r1 = "\<lparr>rq_method = ''POST'', rq_url = Next_urls ?c0, rq_body = BodyString (sr_ScrollId R0)\<rparr>"
  let ?c1 = "?c0\<lparr>sc_Results := A, sc_currentPage := 1\<rparr>"
  have n1: "Next ?c0 [?req0] = (Inr A, ?c1, [?req0, ?r1])"
    using Next_Decoded [of ?c0 "[?req0]" A] cl R0
    by (simp add: NewScanCursor_def scripted_def)
  let ?r2 = "\<lparr>rq_method = ''POST'', rq_url = Next_urls ?c1, rq_body = BodyString (sr_ScrollId A)\<rparr>"
  let ?c2 = "?c0\<lparr>sc_Results := B, sc_currentPage := 2\<rparr>"
  have n2: "Next ?c1 [?req0, ?r1] = (Inr B, ?c2, [?req0, ?r1, ?r2])"
    using Next_Decoded [of ?c1 "[?req0, ?r1]" B] cl A nA
    by (simp add: NewScanCursor_def scripted_def)
  let ?r3 = "\<lparr>rq_method = ''POST'', rq_url = Next_urls ?c2, rq_body = BodyString (sr_ScrollId B)\<rparr>"
  let ?c3 = "?c0\<lparr>sc_Results := C, sc_currentPage := 3\<rparr>"
  have n3: "Next ?c2 [?req0, ?r1, ?r2] = (Inr C, ?c3, [?req0, ?r1, ?r2, ?r3])"
    using Next_Decoded [of ?c2 "[?req0, ?r1, ?r2]" C] cl B nB
    by (simp add: NewScanCursor_def scripted_def)
  have three: "Next_calls 3 ?c0 [?req0] = ([Inr A, Inr B, Inr C], ?c3, [?req0, ?r1, ?r2, ?r3])"
    using n1 n2 n3 by (simp add: numeral_3_eq_3)
  have rest: "Next_calls n ?c3 [?req0, ?r1, ?r2, ?r3] =
                (replicate n (Inl EOS), ?c3, [?req0, ?r1, ?r2, ?r3])"
    using C by (intro Next_calls_exhausted) (simp_all add: NewScanCursor_def)
  have "Next_calls (3 + n) ?c0 [?req0] =
          ([Inr A, Inr B, Inr C] @ replicate n (Inl EOS), ?c3, [?req0, ?r1, ?r2, ?r3])"
    unfolding Next_calls_add three using rest by simp
  with do0 show ?thesis by simp
qed

theorem pages_A_B_C_then_EOS_witness:
  "\<exists>c0 req0. ScanService_Do strip_slashes abc_service [] = (Inr c0, [req0]) \<and>
     (\<exists>c' sent'. Next_calls (3 + 2) c0 [req0] =
        ([Inr page_A, Inr page_B, Inr page_C] @ replicate 2 (Inl EOS), c', sent') \<and>
        length sent' = 4)"
proof -
  have cl: "NewRequest_error (ss_client abc_service) = (\<lambda>m u. None)"
    "c_Do (ss_client abc_service) =
       scripted [Decoded page_0, Decoded page_A, Decoded page_B, Decoded page_C]"
    by (simp_all add: abc_service_def Index_def Let_def abc_client_def stub_client_def
        NewScanService_def)
  show ?thesis
    by (rule pages_A_B_C_then_EOS [OF cl,
          where hA = "\<lparr>sh_TotalHits = 2, sh_Hits = [''doc1'']\<rparr>"
            and hB = "\<lparr>sh_TotalHits = 2, sh_Hits = [''doc2'']\<rparr>"])
      (simp_all add: page_0_def page_A_def page_B_def page_C_def page_def exhausted_def)
qed

lemma QueryEscape_literals:
  shows "QueryEscape ''pretty'' = ''pretty''"
    and "QueryEscape ''scroll'' = ''scroll''"
    and "QueryEscape ''search_type'' = ''search_type''"
    and "QueryEscape ''size'' = ''size''"
    and "QueryEscape ''true'' = ''true''"
    and "QueryEscape ''scan'' = ''scan''"
    and "QueryEscape ''5m'' = ''5m''"
    and "QueryEscape ''1m'' = ''1m''"
  by (simp_all add: QueryEscape_def escape_byte_def unreserved_def)

lemma Encode_Do_params:
  "Encode (Do_params s) =
     (if ss_pretty s then ''pretty=true&'' else []) @
     ''scroll='' @ QueryEscape (if ss_keepAlive s = [] then ''5m'' else ss_keepAlive s) @
     ''&search_type=scan'' @
     (case ss_size s of
        None \<Rightarrow> []
      | Some k \<Rightarrow> if k > 0 then ''&size='' @ QueryEscape (Sprintf_d k) else [])"
  by (simp add: Do_params_def Encode_def Set_param_def Sprintf_v_bool_def defaultKeepAlive_def
      QueryEscape_literals split: option.splits)

lemma Encode_Next_params:
  "Encode (Next_params c) =
     (if sc_pretty c then ''pretty=true&'' else []) @
     ''scroll='' @ QueryEscape (if sc_keepAlive c = [] then ''5m'' else sc_keepAlive c)"
  by (simp add: Next_params_def Encode_def Set_param_def Sprintf_v_bool_def defaultKeepAlive_def
      QueryEscape_literals)

lemma Do_params_nonempty: "length (Do_params s) > 0"
  by (simp add: Do_params_def Set_param_def Let_def split: option.splits)

lemma Do_urls_eq: "Do_urls clean s = Do_path clean s @ ''?'' @ Encode (Do_params s)"
  using Do_params_nonempty [of s] by (simp add: Do_urls_def Let_def)

lemma abc_Do: "ScanService_Do strip_slashes abc_service [] = (Inr abc_cursor, [abc_request])"
proof -
  have "Do_urls strip_slashes abc_service = ''/logs/_search?scroll=5m&search_type=scan''"
    by (simp add: Do_urls_eq Encode_Do_params QueryEscape_literals Do_path_def elems_def
        Index_def Let_def scenario_defs)
  moreover have "Do_body abc_service = VMap [(''query'', VMap [(''match_all'', VMap [])])]"
    by (simp add: Do_body_def Index_def Let_def scenario_defs)
  ultimately show ?thesis
    by (simp add: ScanService_Do_def NewRequest_def SetBodyJson_def Index_def Let_def
        scenario_defs)
qed

lemma minute_Do:
  "ScanService_Do strip_slashes minute_service [] = (Inr minute_cursor, [minute_request])"
proof -
  have "Do_urls strip_slashes minute_service =
          ''/logs/_search?pretty=true&scroll=1m&search_type=scan''"
    by (simp add: Do_urls_eq Encode_Do_params QueryEscape_literals Do_path_def elems_def
        Index_def Scroll_def Pretty_def Let_def scenario_defs)
  moreover have "Do_body minute_service = VMap [(''query'', VMap [(''match_all'', VMap [])])]"
    by (simp add: Do_body_def Index_def Scroll_def Pretty_def Let_def scenario_defs)
  ultimately show ?thesis
    by (simp add: ScanService_Do_def NewRequest_def SetBodyJson_def Index_def Scroll_def
        Pretty_def Let_def scenario_defs)
qed

lemma abc_Next_urls: "Next_urls abc_cursor = ''/_search/scroll?scroll=5m''"
  by (simp add: Next_urls_def Encode_Next_params QueryEscape_literals scenario_defs)

lemma minute_Next_urls: "Next_urls minute_cursor = ''/_search/scroll?pretty=true&scroll=1m''"
  by (simp add: Next_urls_def Encode_Next_params QueryEscape_literals scenario_defs)

text \<open>
  The claim as written fails: with a non-empty A and B and an empty C the third call returns
  the page C and only the fourth returns \<open>EOS\<close>.
\<close>

theorem third_call_returns_page_C_counterexample:
  "ScanService_Do strip_slashes abc_service [] = (Inr abc_cursor, [abc_request]) \<and>
   fst (Next_calls 4 abc_cursor [abc_request]) = [Inr page_A, Inr page_B, Inr page_C, Inl EOS] \<and>
   fst (Next_calls 4 abc_cursor [abc_request]) \<noteq> [Inr page_A, Inr page_B, Inl EOS, Inl EOS]"
proof -
  have "fst (Next_calls 4 abc_cursor [abc_request]) =
          [Inr page_A, Inr page_B, Inr page_C, Inl EOS]"
    by (simp add: numeral_eq_Suc Next_def NewRequest_def SetBodyString_def exhausted_def
        scenario_defs)
  then show ?thesis
    using abc_Do by simp
qed

subsection \<open>The continuation request\<close>

lemma Next_effect:
  assumes "Next c sent = (res, c', sent')"
  shows "sc_keepAlive c' = sc_keepAlive c \<and> sc_pretty c' = sc_pretty c \<and>
         sc_client c' = sc_client c \<and>
         (sent' = sent \<or> (\<exists>req. sent' = sent @ [req] \<and> rq_url req = Next_urls c))"
  using assms
  by (auto simp: Next_def NewRequest_def SetBodyString_def Let_def
      split: if_splits option.splits reply.splits)

lemma Next_urls_cong:
  "sc_keepAlive c' = sc_keepAlive c \<Longrightarrow> sc_pretty c' = sc_pretty c \<Longrightarrow>
   Next_urls c' = Next_urls c"
  by (simp add: Next_urls_def Next_params_def)

lemma Next_calls_urls:
  "Next_calls n c sent = (ress, c', sent') \<Longrightarrow>
   \<exists>reqs. sent' = sent @ reqs \<and> (\<forall>r \<in> set reqs. rq_url r = Next_urls c)"
proof (induction n arbitrary: c sent ress)
  case 0
  then show ?case by simp
next
  case (Suc n)
  obtain res c1 sent1 where step: "Next c sent = (res, c1, sent1)"
    by (cases "Next c sent") auto
  obtain ress1 where rest: "Next_calls n c1 sent1 = (ress1, c', sent')"
    using Suc.prems step by (auto split: prod.splits)
  note eff = Next_effect [OF step]
  have same: "Next_urls c1 = Next_urls c"
    using eff by (intro Next_urls_cong) simp_all
  have one: "sent1 = sent \<or> (\<exists>req. sent1 = sent @ [req] \<and> rq_url req = Next_urls c)"
    using eff by simp
  from Suc.IH [OF rest] obtain reqs where
    reqs: "sent' = sent1 @ reqs" "\<forall>r \<in> set reqs. rq_url r = Next_urls c"
    using same by auto
  from one show ?case
  proof
    assume "sent1 = sent"
    with reqs show ?thesis by auto
  next
    assume "\<exists>req. sent1 = sent @ [req] \<and> rq_url req = Next_urls c"
    then obtain req where "sent1 = sent @ [req]" "rq_url req = Next_urls c" by auto
    with reqs have "sent' = sent @ (req # reqs)" "\<forall>r \<in> set (req # reqs). rq_url r = Next_urls c"
      by auto
    then show ?thesis by blast
  qed
qed

lemma Do_effect:
  assumes "ScanService_Do clean s sent = (Inr c, sent0)"
  shows "sc_keepAlive c = ss_keepAlive s \<and> sc_pretty c = ss_pretty s \<and>
         sent0 = sent @ [\<lparr>rq_method = ''POST'', rq_url = Do_urls clean s, rq_body = BodyJson (Do_body s)\<rparr>]"
proof (cases "NewRequest_error (ss_client s) ''POST'' (Do_urls clean s)")
  case (Some e)
  with assms show ?thesis
    by (simp add: ScanService_Do_def NewRequest_def)
next
  case None
  let ?req = "\<lparr>rq_method = ''POST'', rq_url = Do_urls clean s, rq_body = BodyJson (Do_body s)\<rparr>"
  from None assms show ?thesis
    by (cases "c_Do (ss_client s) sent ?req")
      (auto simp: ScanService_Do_def NewRequest_def SetBodyJson_def NewScanCursor_def)
qed

lemma scroll_param_Do:
  "map_of (Do_params s) ''scroll'' = Some (if ss_keepAlive s = [] then ''5m'' else ss_keepAlive s)"
  by (simp add: Do_params_def Set_param_def defaultKeepAlive_def update_conv' Let_def
      split: option.splits)

lemma scroll_param_Next:
  "map_of (Next_params c) ''scroll'' = Some (if sc_keepAlive c = [] then ''5m'' else sc_keepAlive c)"
  by (simp add: Next_params_def Set_param_def defaultKeepAlive_def update_conv' Let_def)

text \<open>
  Claim C5. \<open>Next\<close> sends at most one request. It sends none when the cursor is exhausted,
  when it has no scroll token, or when the request cannot be built; otherwise it sends one
  \<open>POST\<close> to the scroll endpoint whose body is the stored scroll token itself, set as a
  string and not as JSON.
\<close>

theorem continuation_body_is_the_token:
  "snd (snd (Next c sent)) =
     (if (sc_currentPage c > 0 \<and> exhausted (sc_Results c)) \<or> sr_ScrollId (sc_Results c) = [] \<or>
         NewRequest_error (sc_client c) ''POST'' (Next_urls c) \<noteq> None
      then sent
      else sent @ [\<lparr>rq_method = ''POST'', rq_url = Next_urls c,
                     rq_body = BodyString (sr_ScrollId (sc_Results c))\<rparr>])"
  by (auto simp: Next_def NewRequest_def SetBodyString_def Let_def
      split: option.splits reply.splits)

theorem continuation_body_is_the_token_witness:
  "snd (snd (Next abc_cursor [abc_request])) = [abc_request, scroll_request ''t0''] \<and>
   rq_body (scroll_request ''t0'') = BodyString ''t0''"
  using continuation_body_is_the_token [of abc_cursor "[abc_request]"]
  by (simp add: abc_Next_urls) (simp add: scenario_defs)

text \<open>
  Claim C6. When initiation succeeds, its request and every request of any number of \<open>Next\<close>
  calls on the cursor it returns carry the same value in the \<open>scroll\<close> parameter: the default
  \<open>5m\<close> when no keep-alive was set, the keep-alive that was set otherwise. The URLs are
  given in full: the parameters are sorted by name and escaped.
\<close>

theorem same_ttl_in_initiation_and_continuation:
  assumes "ScanService_Do clean s sent = (Inr c, sent0)"
    and "Next_calls n c sent0 = (ress, c', sent')"
  shows "\<exists>req reqs. sent0 = sent @ [req] \<and> sent' = sent0 @ reqs \<and>
     map_of (Do_params s) ''scroll'' =
       Some (if ss_keepAlive s = [] then ''5m'' else ss_keepAlive s) \<and>
     rq_url req =
       Do_path clean s @ ''?'' @ (if ss_pretty s then ''pretty=true&'' else []) @
       ''scroll='' @ QueryEscape (if ss_keepAlive s = [] then ''5m'' else ss_keepAlive s) @
       ''&search_type=scan'' @
       (case ss_size s of
          None \<Rightarrow> []
        | Some k \<Rightarrow> if k > 0 then ''&size='' @ QueryEscape (Sprintf_d k) else []) \<and>
     map_of (Next_params c) ''scroll'' =
       Some (if ss_keepAlive s = [] then ''5m'' else ss_keepAlive s) \<and>
     (\<forall>r \<in> set reqs.
        rq_url r =
          ''/_search/scroll?'' @ (if ss_pretty s then ''pretty=true&'' else []) @
          ''scroll='' @ QueryEscape (if ss_keepAlive s = [] then ''5m'' else ss_keepAlive s))"
proof -
  let ?req = "\<lparr>rq_method = ''POST'', rq_url = Do_urls clean s, rq_body = BodyJson (Do_body s)\<rparr>"
  from Do_effect [OF assms(1)]
  have c: "sc_keepAlive c = ss_keepAlive s" "sc_pretty c = ss_pretty s"
    and sent0: "sent0 = sent @ [?req]"
    by simp_all
  from Next_calls_urls [OF assms(2)] obtain reqs where
    reqs: "sent' = sent0 @ reqs" "\<forall>r \<in> set reqs. rq_url r = Next_urls c"
    by auto
  have u0: "rq_url ?req = Do_path clean s @ ''?'' @ Encode (Do_params s)"
    by (simp add: Do_urls_eq)
  have un: "Next_urls c = ''/_search/scroll?'' @ Encode (Next_params c)"
    by (simp add: Next_urls_def)
  show ?thesis
    apply (rule exI [of _ ?req], rule exI [of _ reqs])
    using sent0 reqs c
    unfolding u0 un Encode_Do_params Encode_Next_params
    by (simp add: scroll_param_Do scroll_param_Next)
qed

lemma abc_Next2:
  "Next_calls 2 abc_cursor [abc_request] =
     ([Inr page_A, Inr page_B],
      abc_cursor\<lparr>sc_Results := page_B, sc_currentPage := 2\<rparr>,
      [abc_request, scroll_request ''t0'', scroll_request ''t1''])"
proof -
  have u: "Next_urls c = ''/_search/scroll?scroll=5m''"
    if "\<not> sc_pretty c" "sc_keepAlive c = []" for c :: "string ScanCursor"
    using that by (simp add: Next_urls_def Encode_Next_params QueryEscape_literals)
  show ?thesis
    by (simp add: numeral_eq_Suc Next_def NewRequest_def SetBodyString_def exhausted_def u
        scenario_defs)
qed

lemma minute_Next2:
  "Next_calls 2 minute_cursor [minute_request] =
     ([Inr page_A, Inr page_B],
      minute_cursor\<lparr>sc_Results := page_B, sc_currentPage := 2\<rparr>,
      [minute_request, minute_scroll_request ''t0'', minute_scroll_request ''t1''])"
proof -
  have u: "Next_urls c = ''/_search/scroll?pretty=true&scroll=1m''"
    if "sc_pretty c" "sc_keepAlive c = ''1m''" for c :: "string ScanCursor"
    using that by (simp add: Next_urls_def Encode_Next_params QueryEscape_literals)
  show ?thesis
    by (simp add: numeral_eq_Suc Next_def NewRequest_def SetBodyString_def exhausted_def u
        scenario_defs)
qed

theorem same_ttl_in_initiation_and_continuation_witness:
  "(\<exists>reqs. snd (snd (Next_calls 2 abc_cursor [abc_request])) = [abc_request] @ reqs \<and>
      length reqs = 2 \<and> rq_url abc_request = ''/logs/_search?scroll=5m&search_type=scan'' \<and>
      map rq_url reqs = [''/_search/scroll?scroll=5m'', ''/_search/scroll?scroll=5m'']) \<and>
   (\<exists>reqs. snd (snd (Next_calls 2 minute_cursor [minute_request])) = [minute_request] @ reqs \<and>
      length reqs = 2 \<and>
      rq_url minute_request = ''/logs/_search?pretty=true&scroll=1m&search_type=scan'' \<and>
      map rq_url reqs =
        [''/_search/scroll?pretty=true&scroll=1m'', ''/_search/scroll?pretty=true&scroll=1m''])"
proof -
  let ?ttl = "\<lambda>s :: string ScanService. if ss_keepAlive s = [] then ''5m'' else ss_keepAlive s"
  let ?pretty = "\<lambda>s :: string ScanService. if ss_pretty s then ''pretty=true&'' else []"
  let ?size = "\<lambda>s :: string ScanService.
                 case ss_size s of
                   None \<Rightarrow> []
                 | Some k \<Rightarrow> if k > 0 then ''&size='' @ QueryEscape (Sprintf_d k) else []"
  let ?first = "\<lambda>s. Do_path strip_slashes s @ ''?'' @ ?pretty s @ ''scroll='' @
                      QueryEscape (?ttl s) @ ''&search_type=scan'' @ ?size s"
  let ?later = "\<lambda>s. ''/_search/scroll?'' @ ?pretty s @ ''scroll='' @ QueryEscape (?ttl s)"

  from same_ttl_in_initiation_and_continuation [OF abc_Do abc_Next2]
  obtain req reqs where a: "[abc_request] = [] @ [req]"
    "[abc_request, scroll_request ''t0'', scroll_request ''t1''] = [abc_request] @ reqs"
    "\<forall>r \<in> set reqs. rq_url r = ?later abc_service"
    "rq_url req = ?first abc_service"
    by blast
  have s1: "ss_pretty abc_service = False" "ss_keepAlive abc_service = []"
    "ss_size abc_service = None" "Do_path strip_slashes abc_service = ''/logs/_search''"
    by (simp_all add: Do_path_def elems_def Index_def Let_def scenario_defs)
  from a have r1: "reqs = [scroll_request ''t0'', scroll_request ''t1'']" "req = abc_request"
    by simp_all
  have first:
    "\<exists>reqs. snd (snd (Next_calls 2 abc_cursor [abc_request])) = [abc_request] @ reqs \<and>
       length reqs = 2 \<and> rq_url abc_request = ''/logs/_search?scroll=5m&search_type=scan'' \<and>
       map rq_url reqs = [''/_search/scroll?scroll=5m'', ''/_search/scroll?scroll=5m'']"
    apply (rule exI [of _ reqs])
    using a(3,4) unfolding r1 s1 abc_Next2
    by (simp add: QueryEscape_literals)

  from same_ttl_in_initiation_and_continuation [OF minute_Do minute_Next2]
  obtain req' reqs' where b: "[minute_request] = [] @ [req']"
    "[minute_request, minute_scroll_request ''t0'', minute_scroll_request ''t1''] =
       [minute_request] @ reqs'"
    "\<forall>r \<in> set reqs'. rq_url r = ?later minute_service"
    "rq_url req' = ?first minute_service"
    by blast
  have s2: "ss_pretty minute_service = True" "ss_keepAlive minute_service = ''1m''"
    "ss_size minute_service = None" "Do_path strip_slashes minute_service = ''/logs/_search''"
    by (simp_all add: Do_path_def elems_def Index_def Scroll_def Pretty_def Let_def scenario_defs)
  from b have r2: "reqs' = [minute_scroll_request ''t0'', minute_scroll_request ''t1'']"
    "req' = minute_request"
    by simp_all
  have second:
    "\<exists>reqs. snd (snd (Next_calls 2 minute_cursor [minute_request])) = [minute_request] @ reqs \<and>
       length reqs = 2 \<and>
       rq_url minute_request = ''/logs/_search?pretty=true&scroll=1m&search_type=scan'' \<and>
       map rq_url reqs =
         [''/_search/scroll?pretty=true&scroll=1m'', ''/_search/scroll?pretty=true&scroll=1m'']"
    apply (rule exI [of _ reqs'])
    using b(3,4) unfolding r2 s2 minute_Next2
    by (simp add: QueryEscape_literals)
  from first second show ?thesis by (rule conjI)
qed

subsection \<open>Total hits\<close>

text \<open>
  Claim C7. \<open>TotalHits\<close> is 0 when the stored result has no hit metadata, and the total of
  the stored hit metadata otherwise. The stored result is the one most recently received:
  the decoded result of initiation for the cursor that \<open>Do\<close> returns, and after a \<open>Next\<close>
  that returns a page, that page.
\<close>

theorem TotalHits_of_stored_result:
  "(sr_Hits (sc_Results c) = None \<longrightarrow> TotalHits c = 0) \<and>
   (\<forall>hits. sr_Hits (sc_Results c) = Some hits \<longrightarrow> TotalHits c = sh_TotalHits hits) \<and>
   (\<forall>r c' sent'. Next c sent = (Inr r, c', sent') \<longrightarrow>
      sc_Results c' = r \<and>
      TotalHits c' = (case sr_Hits r of None \<Rightarrow> 0 | Some hits \<Rightarrow> sh_TotalHits hits)) \<and>
   (\<forall>c0 sent0. ScanService_Do clean s sent = (Inr c0, sent0) \<longrightarrow>
      c_Do (ss_client s) sent
        \<lparr>rq_method = ''POST'', rq_url = Do_urls clean s, rq_body = BodyJson (Do_body s)\<rparr>
      = Decoded (sc_Results c0))"
proof (intro conjI allI impI)
  show "TotalHits c = 0" if "sr_Hits (sc_Results c) = None"
    using that by (simp add: TotalHits_def)
  show "TotalHits c = sh_TotalHits hits" if "sr_Hits (sc_Results c) = Some hits" for hits
    using that by (simp add: TotalHits_def)
  show "sc_Results c' = r" if "Next c sent = (Inr r, c', sent')" for r c' sent'
    using that
    by (auto simp: Next_def NewRequest_def SetBodyString_def Let_def
        split: if_splits option.splits reply.splits)
  then show "TotalHits c' = (case sr_Hits r of None \<Rightarrow> 0 | Some hits \<Rightarrow> sh_TotalHits hits)"
    if "Next c sent = (Inr r, c', sent')" for r c' sent'
    using that by (simp add: TotalHits_def)
  show "c_Do (ss_client s) sent
          \<lparr>rq_method = ''POST'', rq_url = Do_urls clean s, rq_body = BodyJson (Do_body s)\<rparr>
        = Decoded (sc_Results c0)"
    if "ScanService_Do clean s sent = (Inr c0, sent0)" for c0 sent0
    using that
    by (auto simp: ScanService_Do_def NewScanCursor_def NewRequest_def SetBodyJson_def Let_def
        split: option.splits reply.splits)
qed

theorem TotalHits_of_stored_result_witness:
  "TotalHits tokenless_spent_cursor = 0 \<and> TotalHits abc_cursor = 2 \<and>
   fst (Next abc_cursor [abc_request]) = Inr page_A \<and>
   TotalHits (fst (snd (Next abc_cursor [abc_request]))) = 2 \<and>
   sc_Results abc_cursor = page_0"
proof -
  have none: "sr_Hits (sc_Results tokenless_spent_cursor) = None"
    and some: "sr_Hits (sc_Results abc_cursor) = Some \<lparr>sh_TotalHits = 2, sh_Hits = []\<rparr>"
    by (simp_all add: scenario_defs)
  have step: "Next abc_cursor [abc_request] =
                (Inr page_A, abc_cursor\<lparr>sc_Results := page_A, sc_currentPage := 1\<rparr>,
                 [abc_request, scroll_request ''t0''])"
    using abc_Next_urls
    by (simp add: Next_def NewRequest_def SetBodyString_def exhausted_def scenario_defs)
  have "TotalHits tokenless_spent_cursor = 0"
    using TotalHits_of_stored_result
      [where c = tokenless_spent_cursor and sent = "[]" and clean = strip_slashes
         and s = abc_service] none
    by simp
  moreover have "TotalHits abc_cursor = 2"
    using TotalHits_of_stored_result
      [where c = abc_cursor and sent = "[]" and clean = strip_slashes and s = abc_service] some
    by simp
  moreover have "TotalHits (abc_cursor\<lparr>sc_Results := page_A, sc_currentPage := 1\<rparr>) = 2"
    using TotalHits_of_stored_result
      [where c = abc_cursor and sent = "[abc_request]" and clean = strip_slashes
         and s = abc_service] step
    by (simp add: page_A_def page_def)
  moreover have "sc_Results abc_cursor = page_0"
    by (simp add: scenario_defs)
  ultimately show ?thesis
    using step by simp
qed

section \<open>Properties of the initiation request\<close>

subsection \<open>Names added one at a time or in batches\<close>

lemma apply_call_indices:
  "elems (ss_indices (apply_call b s)) = elems (ss_indices s) @ index_names b"
  by (cases b) (simp_all add: Index_def Indices_def Type_def Types_def Let_def elems_def)

lemma apply_call_types:
  "elems (ss_types (apply_call b s)) = elems (ss_types s) @ type_names b"
  by (cases b) (simp_all add: Index_def Indices_def Type_def Types_def Let_def elems_def)

lemma apply_call_rest:
  shows "ss_client (apply_call b s) = ss_client s"
    and "ss_keepAlive (apply_call b s) = ss_keepAlive s"
    and "ss_query (apply_call b s) = ss_query s"
    and "ss_size (apply_call b s) = ss_size s"
    and "ss_pretty (apply_call b s) = ss_pretty s"
    and "ss_debug (apply_call b s) = ss_debug s"
  by (cases b; simp add: Index_def Indices_def Type_def Types_def Let_def)+

lemma apply_calls_indices:
  "elems (ss_indices (apply_calls bs s)) = elems (ss_indices s) @ concat (map index_names bs)"
  unfolding apply_calls_def
  by (induction bs arbitrary: s) (simp_all add: apply_call_indices)

lemma apply_calls_types:
  "elems (ss_types (apply_calls bs s)) = elems (ss_types s) @ concat (map type_names bs)"
  unfolding apply_calls_def
  by (induction bs arbitrary: s) (simp_all add: apply_call_types)

lemma apply_calls_rest:
  shows "ss_client (apply_calls bs s) = ss_client s"
    and "ss_keepAlive (apply_calls bs s) = ss_keepAlive s"
    and "ss_query (apply_calls bs s) = ss_query s"
    and "ss_size (apply_calls bs s) = ss_size s"
    and "ss_pretty (apply_calls bs s) = ss_pretty s"
    and "ss_debug (apply_calls bs s) = ss_debug s"
  unfolding apply_calls_def
  by (induction bs arbitrary: s; simp add: apply_call_rest)+

lemma index_names_one_at_a_time:
  "concat (map index_names (concat (map one_at_a_time bs))) = concat (map index_names bs)"
proof (induction bs)
  case Nil
  show ?case by simp
next
  case (Cons b bs)
  have "concat (map index_names (one_at_a_time b)) = index_names b"
    by (cases b) (simp_all add: comp_def)
  with Cons show ?case by simp
qed

lemma type_names_one_at_a_time:
  "concat (map type_names (concat (map one_at_a_time bs))) = concat (map type_names bs)"
proof (induction bs)
  case Nil
  show ?case by simp
next
  case (Cons b bs)
  have "concat (map type_names (one_at_a_time b)) = type_names b"
    by (cases b) (simp_all add: comp_def)
  with Cons show ?case by simp
qed

lemma Do_path_cong:
  "elems (ss_indices s) = elems (ss_indices t) \<Longrightarrow> elems (ss_types s) = elems (ss_types t) \<Longrightarrow>
   Do_path clean s = Do_path clean t"
  by (simp add: Do_path_def)

lemma Do_params_cong:
  "ss_pretty s = ss_pretty t \<Longrightarrow> ss_keepAlive s = ss_keepAlive t \<Longrightarrow> ss_size s = ss_size t \<Longrightarrow>
   Do_params s = Do_params t"
  by (simp add: Do_params_def Let_def cong: if_cong)

text \<open>
  Claim C8. Whatever sequence of \<open>Index\<close>, \<open>Indices\<close>, \<open>Type\<close> and \<open>Types\<close> calls is made, each
  list holds its old names followed by the names added, in the order of the calls. Adding
  the same names by single-name calls only gives the same path, with the same cleaned names
  joined by commas, and the same outcome of \<open>Do\<close> altogether.
\<close>

theorem names_accumulate_in_call_order:
  "elems (ss_indices (apply_calls bs s)) = elems (ss_indices s) @ concat (map index_names bs) \<and>
   elems (ss_types (apply_calls bs s)) = elems (ss_types s) @ concat (map type_names bs) \<and>
   Do_path clean (apply_calls (concat (map one_at_a_time bs)) s) =
     Do_path clean (apply_calls bs s) \<and>
   ScanService_Do clean (apply_calls (concat (map one_at_a_time bs)) s) sent =
     ScanService_Do clean (apply_calls bs s) sent"
proof -
  let ?s1 = "apply_calls (concat (map one_at_a_time bs)) s" and ?s2 = "apply_calls bs s"
  have i: "elems (ss_indices ?s1) = elems (ss_indices ?s2)"
    by (simp add: apply_calls_indices index_names_one_at_a_time)
  have t: "elems (ss_types ?s1) = elems (ss_types ?s2)"
    by (simp add: apply_calls_types type_names_one_at_a_time)
  have path: "Do_path clean ?s1 = Do_path clean ?s2"
    using i t by (rule Do_path_cong)
  have params: "Do_params ?s1 = Do_params ?s2"
    by (rule Do_params_cong) (simp_all add: apply_calls_rest)
  have urls: "Do_urls clean ?s1 = Do_urls clean ?s2"
    by (simp add: Do_urls_def path params)
  have body: "Do_body ?s1 = Do_body ?s2"
    by (simp add: Do_body_def apply_calls_rest)
  have "ScanService_Do clean ?s1 sent = ScanService_Do clean ?s2 sent"
    unfolding ScanService_Do_def urls body apply_calls_rest ..
  with path show ?thesis
    by (simp add: apply_calls_indices apply_calls_types)
qed

theorem names_accumulate_in_call_order_witness:
  "concat (map one_at_a_time batch_calls) =
     [CallIndex ''a'', CallIndex ''b'', CallType ''t'', CallIndex ''c'', CallType ''u'',
      CallType ''v''] \<and>
   elems (ss_indices (apply_calls batch_calls (NewScanService abc_client))) = [''a'', ''b'', ''c''] \<and>
   elems (ss_types (apply_calls batch_calls (NewScanService abc_client))) = [''t'', ''u'', ''v''] \<and>
   Do_path strip_slashes (apply_calls batch_calls (NewScanService abc_client)) =
     ''/a,b,c/t,u,v/_search'' \<and>
   Do_path strip_slashes
     (apply_calls (concat (map one_at_a_time batch_calls)) (NewScanService abc_client)) =
     ''/a,b,c/t,u,v/_search''"
proof -
  note th = names_accumulate_in_call_order
    [where bs = batch_calls and s = "NewScanService abc_client" and clean = strip_slashes
       and sent = "[]"]
  have i: "elems (ss_indices (apply_calls batch_calls (NewScanService abc_client))) =
             [''a'', ''b'', ''c'']"
    and t: "elems (ss_types (apply_calls batch_calls (NewScanService abc_client))) =
             [''t'', ''u'', ''v'']"
    using th by (simp_all add: batch_calls_def NewScanService_def elems_def)
  then have "Do_path strip_slashes (apply_calls batch_calls (NewScanService abc_client)) =
               ''/a,b,c/t,u,v/_search''"
    by (simp add: Do_path_def strip_slashes_def)
  with th i t show ?thesis
    by (simp add: batch_calls_def)
qed

subsection \<open>The path\<close>

text \<open>
  Claim C4, evaluated. \<open>Do\<close> writes the leading \<open>/\<close> before it looks at the lists. With no
  index and no type the path is \<open>//_search\<close>; with types only it is \<open>//\<close>, the types and
  \<open>/_search\<close>: the place of the indices stays in the path as an empty segment. With indices
  only the path is \<open>/\<close>, the indices and \<open>/_search\<close>: the types and their separator are left
  out together.
\<close>

theorem Do_path_of_empty_lists:
  "Do_path clean (NewScanService cl) = ''//_search'' \<and>
   Do_path clean (NewScanService cl) \<noteq> ''/_search'' \<and>
   Do_path clean (Types (t # ts) (NewScanService cl)) =
     ''//'' @ Join (map clean (t # ts)) '','' @ ''/_search'' \<and>
   Do_path clean (Indices (i # is) (NewScanService cl)) =
     ''/'' @ Join (map clean (i # is)) '','' @ ''/_search''"
  by (simp add: Do_path_def NewScanService_def Types_def Indices_def elems_def Let_def)

section \<open>Properties of the multi term vector request\<close>

text \<open>
  Claim C9. When the index or the type of the service is empty, \<open>Do\<close> returns the error of
  \<open>Validate\<close>, whose message lists \<open>Index\<close> and \<open>Type\<close> as far as they are missing, and
  makes no call to \<open>PerformRequest\<close>. When both are set, \<open>Validate\<close> returns no error and
  whatever \<open>Do\<close> returns is not an error of \<open>Validate\<close>.
\<close>

theorem missing_index_or_type_is_rejected:
  "(ms_index s = [] \<or> ms_typ s = [] \<longrightarrow>
      MultiTermvectorService_Do Expand s calls =
        (Inl (Errorf (''missing required fields: ['' @
                      Join ((if ms_index s = [] then [''Index''] else []) @
                            (if ms_typ s = [] then [''Type''] else [])) '' '' @ '']'')),
         calls)) \<and>
   (ms_index s \<noteq> [] \<and> ms_typ s \<noteq> [] \<longrightarrow>
      Validate s = None \<and>
      (\<forall>msg. fst (MultiTermvectorService_Do Expand s calls) \<noteq> Inl (Errorf msg)))"
proof (intro conjI impI allI)
  assume "ms_index s = [] \<or> ms_typ s = []"
  then show "MultiTermvectorService_Do Expand s calls =
        (Inl (Errorf (''missing required fields: ['' @
                      Join ((if ms_index s = [] then [''Index''] else []) @
                            (if ms_typ s = [] then [''Type''] else [])) '' '' @ '']'')),
         calls)"
    by (auto simp: MultiTermvectorService_Do_def Validate_def)
next
  assume both: "ms_index s \<noteq> [] \<and> ms_typ s \<noteq> []"
  then show valid: "Validate s = None"
    by (simp add: Validate_def)
  fix msg
  show "fst (MultiTermvectorService_Do Expand s calls) \<noteq> Inl (Errorf msg)"
  proof (cases "buildURL Expand s")
    case (Inl err)
    then obtain e where "err = External e"
      using both by (auto simp: buildURL_def Let_def split: sum.splits)
    with Inl valid show ?thesis
      by (simp add: MultiTermvectorService_Do_def)
  next
    case (Inr pp)
    obtain path params where pp: "pp = (path, params)"
      by (cases pp)
    let ?call = "\<lparr>call_method = ''GET'', call_path = path, call_params = params,
                   call_body = Service_Source s\<rparr>"
    show ?thesis
      using Inr valid pp
      by (cases "ms_client s calls ?call") (simp_all add: MultiTermvectorService_Do_def)
  qed
qed

lemmas service_defs =
  unnamed_service_def index_only_service_def type_only_service_def named_service_def
  NewMultiTermvectorService_def Service_Add_def Service_Index_def Service_Type_def

theorem missing_index_or_type_is_rejected_witness:
  "MultiTermvectorService_Do expand_stub unnamed_service [] =
     (Inl (Errorf ''missing required fields: [Index Type]''), []) \<and>
   MultiTermvectorService_Do expand_stub index_only_service [] =
     (Inl (Errorf ''missing required fields: [Type]''), []) \<and>
   MultiTermvectorService_Do expand_stub type_only_service [] =
     (Inl (Errorf ''missing required fields: [Index]''), []) \<and>
   Validate named_service = None \<and>
   fst (MultiTermvectorService_Do expand_stub named_service []) = Inr \<lparr>Docs = []\<rparr> \<and>
   length (snd (MultiTermvectorService_Do expand_stub named_service [])) = 1"
proof -
  have "MultiTermvectorService_Do expand_stub unnamed_service [] =
          (Inl (Errorf ''missing required fields: [Index Type]''), [])"
    using missing_index_or_type_is_rejected
      [where s = unnamed_service and Expand = expand_stub and calls = "[]"]
    by (simp add: service_defs)
  moreover have "MultiTermvectorService_Do expand_stub index_only_service [] =
          (Inl (Errorf ''missing required fields: [Type]''), [])"
    using missing_index_or_type_is_rejected
      [where s = index_only_service and Expand = expand_stub and calls = "[]"]
    by (simp add: service_defs)
  moreover have "MultiTermvectorService_Do expand_stub type_only_service [] =
          (Inl (Errorf ''missing required fields: [Index]''), [])"
    using missing_index_or_type_is_rejected
      [where s = type_only_service and Expand = expand_stub and calls = "[]"]
    by (simp add: service_defs)
  moreover have valid: "Validate named_service = None"
    using missing_index_or_type_is_rejected
      [where s = named_service and Expand = expand_stub and calls = "[]"]
    by (simp add: service_defs)
  moreover have "MultiTermvectorService_Do expand_stub named_service [] =
          (Inr \<lparr>Docs = []\<rparr>,
           [\<lparr>call_method = ''GET'', call_path = ''/{index}/{type}/_mtermvectors'',
             call_params = [], call_body = Service_Source named_service\<rparr>])"
    using valid
    by (simp add: MultiTermvectorService_Do_def buildURL_def expand_stub_def empty_answer_def
        service_defs)
  ultimately show ?thesis by simp
qed

lemma map_of_assign_other: "k' \<noteq> k \<Longrightarrow> map_of (assign (k', vo) m) k = map_of m k"
  by (cases vo) (simp_all add: assign_def update_conv')

lemma map_of_assign_Some: "map_of (assign (k, Some v) m) k = Some v"
  by (simp add: assign_def update_conv')

lemma map_of_assign_None: "map_of (assign (k, None) m) k = map_of m k"
  by (simp add: assign_def)

text \<open>
  Claim C10. The source of an item never has the key \<open>parent\<close>. An item with a non-empty
  parent has the parent under the key \<open>parant\<close>; an item with an empty parent has neither
  key. The body of the service lists the sources of its items under \<open>docs\<close>.
\<close>

theorem parent_is_sent_as_parant:
  "map_of (Item_Source d) ''parent'' = None \<and>
   (mi_parent d \<noteq> [] \<longrightarrow> map_of (Item_Source d) ''parant'' = Some (VString (mi_parent d))) \<and>
   (mi_parent d = [] \<longrightarrow> map_of (Item_Source d) ''parant'' = None) \<and>
   Service_Source s = VMap [(''docs'', VList (map (\<lambda>doc. VMap (Item_Source doc)) (ms_docs s)))]"
  by (simp add: Item_Source_def Service_Source_def guard_def map_of_assign_other
      map_of_assign_Some map_of_assign_None)

theorem parent_is_sent_as_parant_witness:
  "Item_Source child_item = [(''_id'', VString ''1''), (''parant'', VString ''p1'')] \<and>
   map_of (Item_Source child_item) ''parant'' = Some (VString ''p1'') \<and>
   map_of (Item_Source child_item) ''parent'' = None \<and>
   map_of (Item_Source orphan_item) ''parant'' = None \<and>
   Service_Source unnamed_service =
     VMap [(''docs'', VList [VMap [(''_id'', VString ''1''), (''parant'', VString ''p1'')]])]"
proof -
  have src: "Item_Source child_item = [(''_id'', VString ''1''), (''parant'', VString ''p1'')]"
    by (simp add: Item_Source_def assign_def guard_def child_item_def Item_Parent_def
        Item_Id_def NewMultiTermvectorItem_def)
  have p: "mi_parent child_item = ''p1''" "mi_parent orphan_item = []"
    "ms_docs unnamed_service = [child_item]"
    by (simp_all add: child_item_def orphan_item_def Item_Parent_def Item_Id_def
        NewMultiTermvectorItem_def service_defs)
  show ?thesis
    using parent_is_sent_as_parant [of child_item unnamed_service]
      parent_is_sent_as_parant [of orphan_item unnamed_service] src p
    by simp
qed

end
